theory Spec2Isabelle
  imports Main
begin

section \<open>Python values, exceptions and the effect trace\<close>

text \<open>
  The decorators of \<^verbatim>\<open>python-decorators-0x01\<close> wrap an arbitrary Python callable. The
  embedding keeps the fragment of Python's objects the wrappers look at: \<^verbatim>\<open>None\<close>,
  integers, strings, lists, tuples and connection handles. On this fragment HOL equality is
  Python's \<^verbatim>\<open>==\<close> (there are no booleans or floats that would compare equal to an
  integer), so it is also the key equality of a \<^verbatim>\<open>dict\<close>.
\<close>

datatype pyval =
    PNone
  | PInt int
  | PStr string
  | PList "pyval list"
  | PTuple "pyval list"
  | PConn nat

text \<open>Truth value testing, as \<^verbatim>\<open>if x\<close>, \<^verbatim>\<open>not x\<close> and \<^verbatim>\<open>x or y\<close> perform it.\<close>

fun truthy :: "pyval \<Rightarrow> bool" where
  "truthy PNone = False"
| "truthy (PInt i) = (i \<noteq> 0)"
| "truthy (PStr s) = (s \<noteq> [])"
| "truthy (PList xs) = (xs \<noteq> [])"
| "truthy (PTuple xs) = (xs \<noteq> [])"
| "truthy (PConn c) = True"

text \<open>
  Hashability, as a \<^verbatim>\<open>dict\<close> lookup or store needs it: a list is unhashable, a tuple is
  hashable when its items are.
\<close>

fun hashable :: "pyval \<Rightarrow> bool" and hashable_all :: "pyval list \<Rightarrow> bool" where
  "hashable PNone = True"
| "hashable (PInt i) = True"
| "hashable (PStr s) = True"
| "hashable (PList xs) = False"
| "hashable (PTuple xs) = hashable_all xs"
| "hashable (PConn c) = True"
| "hashable_all [] = True"
| "hashable_all (x # xs) = (hashable x \<and> hashable_all xs)"

text \<open>
  An exception object: where its class sits in the hierarchy (under \<^verbatim>\<open>sqlite3.Error\<close>,
  elsewhere under \<^verbatim>\<open>Exception\<close>, or under \<^verbatim>\<open>BaseException\<close> only, as
  \<^verbatim>\<open>KeyboardInterrupt\<close> and \<^verbatim>\<open>SystemExit\<close> are), the class name, and the text
  \<^verbatim>\<open>str(e)\<close> gives.
\<close>

datatype exn_kind = SqliteError | OtherException | NonException

datatype exn = Exn exn_kind string string


fun is_Exception :: "exn \<Rightarrow> bool" where
  "is_Exception (Exn k n m) = (k \<noteq> NonException)"

fun exn_str :: "exn \<Rightarrow> string" where
  "exn_str (Exn k n m) = m"

type_synonym kwargs = "(string \<times> pyval) list"

type_synonym outcome = "exn + pyval"

text \<open>
  What a wrapper does to the outside: calls of the driver (\<^verbatim>\<open>sqlite3.connect\<close>,
  \<^verbatim>\<open>commit\<close>, \<^verbatim>\<open>rollback\<close>, \<^verbatim>\<open>close\<close>), of \<^verbatim>\<open>print\<close>, of the logger and of
  \<^verbatim>\<open>time.sleep\<close>, and each invocation of the wrapped function with the arguments it
  received. They are recorded in order as they return.
\<close>

datatype log_level = INFO | WARNING | ERROR

datatype event =
    Connect string nat
  | Close nat
  | Commit nat
  | Rollback nat
  | Print string
  | Log log_level string
  | Sleep int
  | Call "pyval list" kwargs

text \<open>
  A callable: what \<^verbatim>\<open>func.__name__\<close> gives (the name, or the \<^verbatim>\<open>AttributeError\<close> of a
  callable without one, as a \<^verbatim>\<open>functools.partial\<close>), what
  \<^verbatim>\<open>inspect.signature(func).parameters\<close> gives (the names of the declared parameters, or
  the exception \<^verbatim>\<open>inspect.signature\<close> raises for a callable without an introspectable
  signature, as some builtins), and its body, which takes the positional and keyword
  arguments and the state of everything it can reach (the database, the connection, the
  standard output, its own counters), and returns normally or raises, leaving a new state.
\<close>

record 'w pyfun =
  fn_name :: "exn + string"
  fn_params :: "exn + string list"
  fn_body :: "pyval list \<Rightarrow> kwargs \<Rightarrow> 'w \<Rightarrow> outcome \<times> 'w"

record 'w pystate =
  trace :: "event list"
  world :: 'w

definition emit :: "event \<Rightarrow> 'w pystate \<Rightarrow> 'w pystate" where
  "emit e s = s\<lparr>trace := trace s @ [e]\<rparr>"

text \<open>\<^verbatim>\<open>func(*args, **kwargs)\<close>: the call is recorded, then the body runs.\<close>

definition invoke :: "'w pyfun \<Rightarrow> pyval list \<Rightarrow> kwargs \<Rightarrow> 'w pystate \<Rightarrow> outcome \<times> 'w pystate" where
  "invoke func args kwargs s =
     (case fn_body func args kwargs (world s) of
        (r, w') \<Rightarrow> (r, \<lparr>trace = trace s @ [Call args kwargs], world = w'\<rparr>))"

fun is_Call :: "event \<Rightarrow> bool" where
  "is_Call (Call a k) = True"
| "is_Call e = False"

fun is_Connect :: "event \<Rightarrow> bool" where
  "is_Connect (Connect p c) = True"
| "is_Connect e = False"


definition calls :: "event list \<Rightarrow> nat" where
  "calls t = length (filter is_Call t)"

section \<open>The Python runtime and the libraries\<close>

text \<open>
  The calls the wrappers make with arguments that the wrapped function or the configuration
  decide can raise: \<^verbatim>\<open>conn.commit()\<close> and \<^verbatim>\<open>conn.rollback()\<close> on what the function left
  of the connection, \<^verbatim>\<open>time.sleep(delay)\<close>, the formatting of an object or an exception in
  an f-string (\<^verbatim>\<open>__str__\<close> is the object's own code), \<^verbatim>\<open>print\<close> and the logger's
  methods. They are code of the interpreter, the driver and the standard library, not of
  this repository, and are taken as parameters: each gives \<open>None\<close> when it returns normally
  and the exception when it raises, and may look at the state the wrapped function left.
  A commit, a rollback and a sleep also change that state: the transaction ends, time passes.
  What \<^verbatim>\<open>print\<close> and the logger write is not part of it.

  The other calls are taken to return normally, as only the environment can make them fail:
  \<^verbatim>\<open>sqlite3.connect\<close> on the fixed path, before the function runs;
  \<^verbatim>\<open>conn.close()\<close>, harmless on a closed connection; the two \<^verbatim>\<open>print\<close> calls of the
  cache wrapper, of fixed texts and before any invocation of the function.
\<close>

record 'w lib =
  lib_commit :: "nat \<Rightarrow> 'w \<Rightarrow> exn option \<times> 'w"
  lib_rollback :: "nat \<Rightarrow> 'w \<Rightarrow> exn option \<times> 'w"
  lib_print :: "string \<Rightarrow> 'w \<Rightarrow> exn option"
  lib_log :: "log_level \<Rightarrow> string \<Rightarrow> 'w \<Rightarrow> exn option"
  lib_sleep :: "int \<Rightarrow> 'w \<Rightarrow> exn option \<times> 'w"
  lib_str :: "pyval \<Rightarrow> exn + string"
  lib_str_exn :: "exn \<Rightarrow> exn + string"

text \<open>A call is recorded in the trace when it has returned normally.\<close>

definition conn_commit :: "'w lib \<Rightarrow> nat \<Rightarrow> 'w pystate \<Rightarrow> exn option \<times> 'w pystate" where
  "conn_commit lib conn s =
     (case lib_commit lib conn (world s) of
        (None, w') \<Rightarrow> (None, \<lparr>trace = trace s @ [Commit conn], world = w'\<rparr>)
      | (Some e, w') \<Rightarrow> (Some e, \<lparr>trace = trace s, world = w'\<rparr>))"

definition conn_rollback :: "'w lib \<Rightarrow> nat \<Rightarrow> 'w pystate \<Rightarrow> exn option \<times> 'w pystate" where
  "conn_rollback lib conn s =
     (case lib_rollback lib conn (world s) of
        (None, w') \<Rightarrow> (None, \<lparr>trace = trace s @ [Rollback conn], world = w'\<rparr>)
      | (Some e, w') \<Rightarrow> (Some e, \<lparr>trace = trace s, world = w'\<rparr>))"

definition time_sleep :: "'w lib \<Rightarrow> int \<Rightarrow> 'w pystate \<Rightarrow> exn option \<times> 'w pystate" where
  "time_sleep lib seconds s =
     (case lib_sleep lib seconds (world s) of
        (None, w') \<Rightarrow> (None, \<lparr>trace = trace s @ [Sleep seconds], world = w'\<rparr>)
      | (Some e, w') \<Rightarrow> (Some e, \<lparr>trace = trace s, world = w'\<rparr>))"

text \<open>
  An f-string: its pieces are evaluated from left to right, each a literal text or the
  formatting of a value, and the first that raises ends the evaluation.
\<close>

fun fstring :: "(exn + string) list \<Rightarrow> exn + string" where
  "fstring [] = Inr []"
| "fstring (Inl e # ps) = Inl e"
| "fstring (Inr t # ps) = (case fstring ps of Inl e \<Rightarrow> Inl e | Inr u \<Rightarrow> Inr (t @ u))"

text \<open>\<^verbatim>\<open>print(f"...")\<close> and \<^verbatim>\<open>logger.info(f"...")\<close>: the text is built, then written.\<close>

definition py_print :: "'w lib \<Rightarrow> (exn + string) list \<Rightarrow> 'w pystate \<Rightarrow> exn option \<times> 'w pystate" where
  "py_print lib pieces s =
     (case fstring pieces of
        Inl e \<Rightarrow> (Some e, s)
      | Inr text \<Rightarrow>
          (case lib_print lib text (world s) of
             None \<Rightarrow> (None, emit (Print text) s)
           | Some e \<Rightarrow> (Some e, s)))"


text \<open>
  Formatting, printing and logging never raise; and sleeping for \<open>seconds\<close> returns
  normally.
\<close>

definition lib_quiet :: "'w lib \<Rightarrow> bool" where
  "lib_quiet lib =
     ((\<forall>v e. lib_str lib v \<noteq> Inl e) \<and> (\<forall>x e. lib_str_exn lib x \<noteq> Inl e) \<and>
      (\<forall>text w. lib_print lib text w = None) \<and> (\<forall>level text w. lib_log lib level text w = None))"

definition sleeps :: "'w lib \<Rightarrow> int \<Rightarrow> bool" where
  "sleeps lib seconds = (\<forall>w. fst (lib_sleep lib seconds w) = None)"

definition text_of :: "exn + string \<Rightarrow> string" where
  "text_of r = (case r of Inl e \<Rightarrow> [] | Inr t \<Rightarrow> t)"

section \<open>The connection provider (1-with\_db\_connection.py)\<close>

text \<open>
  \<^verbatim>\<open>sqlite3.connect('users.db')\<close> returns a new handle at each call: the handle is
  numbered by the connections opened before it.
\<close>

definition sqlite3_connect :: "string \<Rightarrow> 'w pystate \<Rightarrow> nat \<times> 'w pystate" where
  "sqlite3_connect path s =
     (let conn = length (filter is_Connect (trace s)) in (conn, emit (Connect path conn) s))"

text \<open>
  \<^verbatim>\<open>
  def wrapper(*args, **kwargs):
      conn = sqlite3.connect('users.db')
      try:
          return func(conn, *args, **kwargs)
      finally:
          conn.close()
  \<close>
\<close>

definition with_db_connection ::
  "'w pyfun \<Rightarrow> pyval list \<Rightarrow> kwargs \<Rightarrow> 'w pystate \<Rightarrow> outcome \<times> 'w pystate" where
  "with_db_connection func args kwargs s =
     (case sqlite3_connect ''users.db'' s of
        (conn, s1) \<Rightarrow>
          (case invoke func (PConn conn # args) kwargs s1 of
             (r, s2) \<Rightarrow> (r, emit (Close conn) s2)))"

section \<open>The transaction wrapper (2-transactional.py)\<close>

text \<open>
  \<^verbatim>\<open>
  def wrapper(conn, *args, **kwargs):
      try:
          result = func(conn, *args, **kwargs)
          conn.commit()
          return result
      except Exception as e:
          conn.rollback()
          print(f"Transaction failed: {e}")
          raise
  \<close>
  The handler is \<^verbatim>\<open>except Exception\<close>: an exception outside that class passes through
  the \<^verbatim>\<open>try\<close> statement untouched. The commit is inside the \<^verbatim>\<open>try\<close>: an exception it
  raises goes to the handler as one of the function would. An exception raised inside the
  handler, by the rollback or by the \<^verbatim>\<open>print\<close>, leaves the wrapper in place of the one
  handled.
\<close>

definition transactional_except ::
  "'w lib \<Rightarrow> nat \<Rightarrow> exn \<Rightarrow> 'w pystate \<Rightarrow> outcome \<times> 'w pystate" where
  "transactional_except lib conn e s =
     (if is_Exception e then
        (case conn_rollback lib conn s of
           (Some raised, s1) \<Rightarrow> (Inl raised, s1)
         | (None, s1) \<Rightarrow>
             (case py_print lib [Inr ''Transaction failed: '', lib_str_exn lib e] s1 of
                (Some raised, s2) \<Rightarrow> (Inl raised, s2)
              | (None, s2) \<Rightarrow> (Inl e, s2)))
      else (Inl e, s))"

definition transactional ::
  "'w lib \<Rightarrow> 'w pyfun \<Rightarrow> nat \<Rightarrow> pyval list \<Rightarrow> kwargs \<Rightarrow> 'w pystate \<Rightarrow> outcome \<times> 'w pystate"
  where
  "transactional lib func conn args kwargs s =
     (case invoke func (PConn conn # args) kwargs s of
        (Inr result, s1) \<Rightarrow>
          (case conn_commit lib conn s1 of
             (None, s2) \<Rightarrow> (Inr result, s2)
           | (Some e, s2) \<Rightarrow> transactional_except lib conn e s2)
      | (Inl e, s1) \<Rightarrow> transactional_except lib conn e s1)"

section \<open>The retry wrapper (3-retry\_on\_failure.py)\<close>

text \<open>
  \<^verbatim>\<open>
  def wrapper(*args, **kwargs):
      for attempt in range(1, retries + 1):
          try:
              return func(*args, **kwargs)
          except Exception as e:
              print(f"[Attempt {attempt}] Error: {e}")
              if attempt < retries:
                  print(f"Retrying in {delay} seconds...")
                  time.sleep(delay)
              else:
                  print("All retry attempts failed.")
                  raise
  \<close>
  \<open>retry_attempts\<close> is the loop from the value \<open>attempt\<close> on. When the range is
  exhausted without a \<^verbatim>\<open>return\<close> or a \<^verbatim>\<open>raise\<close>, the function body ends and the call
  returns \<^verbatim>\<open>None\<close>. An exception raised inside the handler, by a \<^verbatim>\<open>print\<close> or by
  \<^verbatim>\<open>time.sleep\<close>, leaves the loop and the wrapper.
\<close>

function retry_attempts ::
  "'w lib \<Rightarrow> 'w pyfun \<Rightarrow> int \<Rightarrow> int \<Rightarrow> pyval list \<Rightarrow> kwargs \<Rightarrow> int \<Rightarrow> 'w pystate
     \<Rightarrow> outcome \<times> 'w pystate"
  where
  "retry_attempts lib func retries delay args kwargs attempt s =
     (if attempt < retries + 1 then
        (case invoke func args kwargs s of
           (Inr result, s1) \<Rightarrow> (Inr result, s1)
         | (Inl e, s1) \<Rightarrow>
             if is_Exception e then
               (case py_print lib [Inr ''[Attempt '', lib_str lib (PInt attempt),
                                   Inr ''] Error: '', lib_str_exn lib e] s1 of
                  (Some raised, s2) \<Rightarrow> (Inl raised, s2)
                | (None, s2) \<Rightarrow>
                    if attempt < retries then
                      (case py_print lib [Inr ''Retrying in '', lib_str lib (PInt delay),
                                          Inr '' seconds...''] s2 of
                         (Some raised, s3) \<Rightarrow> (Inl raised, s3)
                       | (None, s3) \<Rightarrow>
                           (case time_sleep lib delay s3 of
                              (Some raised, s4) \<Rightarrow> (Inl raised, s4)
                            | (None, s4) \<Rightarrow>
                                retry_attempts lib func retries delay args kwargs (attempt + 1) s4))
                    else
                      (case py_print lib [Inr ''All retry attempts failed.''] s2 of
                         (Some raised, s3) \<Rightarrow> (Inl raised, s3)
                       | (None, s3) \<Rightarrow> (Inl e, s3)))
             else (Inl e, s1))
      else (Inr PNone, s))"
  by pat_completeness auto
termination
  by (relation "measure (\<lambda>(lib, func, retries, delay, args, kwargs, attempt, s).
                   nat (retries + 1 - attempt))")
     auto

declare retry_attempts.simps [simp del]

definition retry_on_failure ::
  "'w lib \<Rightarrow> int \<Rightarrow> int \<Rightarrow> 'w pyfun \<Rightarrow> pyval list \<Rightarrow> kwargs \<Rightarrow> 'w pystate
     \<Rightarrow> outcome \<times> 'w pystate" where
  "retry_on_failure lib retries delay func args kwargs s =
     retry_attempts lib func retries delay args kwargs 1 s"

text \<open>
  The first \<open>k\<close> invocations of a function under the wrapper: from the state \<open>w\<close>, \<open>k\<close>
  times in a row the body raises an \<^verbatim>\<open>Exception\<close> and the sleep of \<open>delay\<close> seconds that
  follows returns normally; \<open>w'\<close> is the state then.
\<close>

fun fails_times ::
  "'w lib \<Rightarrow> int \<Rightarrow> 'w pyfun \<Rightarrow> pyval list \<Rightarrow> kwargs \<Rightarrow> nat \<Rightarrow> 'w \<Rightarrow> 'w \<Rightarrow> bool" where
  "fails_times lib delay func args kwargs 0 w w' = (w' = w)"
| "fails_times lib delay func args kwargs (Suc k) w w' =
     (case fn_body func args kwargs w of
        (Inl e, w1) \<Rightarrow>
          is_Exception e \<and>
          (case lib_sleep lib delay w1 of
             (None, w2) \<Rightarrow> fails_times lib delay func args kwargs k w2 w'
           | (Some raised, w2) \<Rightarrow> False)
      | (Inr v, w1) \<Rightarrow> False)"

section \<open>The query cache (4-cache\_query.py)\<close>

text \<open>
  \<^verbatim>\<open>query_cache: Dict[str, Any] = {}\<close> is module state, written by the wrapper only; it is
  passed to the wrapper and returned by it.
\<close>

type_synonym cache = "pyval \<rightharpoonup> pyval"

text \<open>\<^verbatim>\<open>kwargs.get("query") or (args[0] if args else None)\<close>\<close>

definition cache_find_query :: "pyval list \<Rightarrow> kwargs \<Rightarrow> pyval" where
  "cache_find_query args kwargs =
     (let kw = (case map_of kwargs ''query'' of Some v \<Rightarrow> v | None \<Rightarrow> PNone)
      in if truthy kw then kw
         else (case args of [] \<Rightarrow> PNone | a # rest \<Rightarrow> a))"

text \<open>
  \<^verbatim>\<open>
  def wrapper(conn, *args, **kwargs):
      query = kwargs.get("query") or (args[0] if args else None)
      if not query:
          raise ValueError("Missing SQL query for caching")
      if query in query_cache:
          print("[CACHE HIT] Returning cached result.")
          return query_cache[query]
      print("[CACHE MISS] Executing and caching result.")
      result = func(conn, *args, **kwargs)
      query_cache[query] = result
      return result
  \<close>
  The membership test hashes the key, and raises \<^verbatim>\<open>TypeError\<close> on an unhashable one.
\<close>

definition missing_query_error :: exn where
  "missing_query_error = Exn OtherException ''ValueError'' ''Missing SQL query for caching''"

definition unhashable_error :: exn where
  "unhashable_error =
     Exn OtherException ''TypeError'' (''unhashable type: '' @ [CHR 0x27] @ ''list'' @ [CHR 0x27])"

definition cache_query ::
  "'w pyfun \<Rightarrow> nat \<Rightarrow> pyval list \<Rightarrow> kwargs \<Rightarrow> cache \<Rightarrow> 'w pystate
     \<Rightarrow> outcome \<times> cache \<times> 'w pystate" where
  "cache_query func conn args kwargs query_cache s =
     (let query = cache_find_query args kwargs in
      if \<not> truthy query then
        (Inl missing_query_error, query_cache, s)
      else if \<not> hashable query then
        (Inl unhashable_error, query_cache, s)
      else
        (case query_cache query of
           Some cached \<Rightarrow>
             (Inr cached, query_cache, emit (Print ''[CACHE HIT] Returning cached result.'') s)
         | None \<Rightarrow>
             (case invoke func (PConn conn # args) kwargs
                     (emit (Print ''[CACHE MISS] Executing and caching result.'') s) of
                (Inr result, s1) \<Rightarrow> (Inr result, query_cache(query \<mapsto> result), s1)
              | (Inl e, s1) \<Rightarrow> (Inl e, query_cache, s1))))"

text \<open>
  The rule the specification gives for locating the query: by keyword if the keyword is
  given, otherwise the first positional argument.
\<close>

definition spec_cache_query_arg :: "pyval list \<Rightarrow> kwargs \<Rightarrow> pyval option" where
  "spec_cache_query_arg args kwargs =
     (case map_of kwargs ''query'' of
        Some v \<Rightarrow> Some v
      | None \<Rightarrow> (case args of [] \<Rightarrow> None | a # rest \<Rightarrow> Some a))"

text \<open>The keys a cache built by the wrapper can hold: each passed the test \<^verbatim>\<open>if not query\<close>.\<close>

definition cache_keys_truthy :: "cache \<Rightarrow> bool" where
  "cache_keys_truthy c = (\<forall>k. c k = None \<or> truthy k)"

section \<open>The query logger (0-log\_queries.py)\<close>














section \<open>Functions and libraries to run the wrappers on\<close>

text \<open>
  A function that fails with a database error on its first \<open>k\<close> invocations and returns the
  rows afterwards; its state is the number of invocations so far.
\<close>

definition flaky :: "nat \<Rightarrow> nat pyfun" where
  "flaky k =
     \<lparr>fn_name = Inr ''fetch_users_with_retry'', fn_params = Inr [''conn''],
      fn_body = (\<lambda>args kwargs n.
        if n < k then (Inl (Exn SqliteError ''OperationalError'' ''database is locked''), Suc n)
        else (Inr (PList [PTuple [PInt 1, PStr ''Alice Johnson'']]), Suc n))\<rparr>"

text \<open>A function that always fails with a database error.\<close>

definition always_failing :: "nat pyfun" where
  "always_failing =
     \<lparr>fn_name = Inr ''fetch_all_users'', fn_params = Inr [''query''],
      fn_body = (\<lambda>args kwargs n.
        (Inl (Exn SqliteError ''OperationalError'' ''no such table: users''), Suc n))\<rparr>"

text \<open>
  A function interrupted from the keyboard on its first invocation (\<^verbatim>\<open>KeyboardInterrupt\<close>
  is not an \<^verbatim>\<open>Exception\<close>), which returns the rows afterwards.
\<close>

definition interrupted_once :: "nat pyfun" where
  "interrupted_once =
     \<lparr>fn_name = Inr ''fetch_users_with_retry'', fn_params = Inr [''conn''],
      fn_body = (\<lambda>args kwargs n.
        if n = 0 then (Inl (Exn NonException ''KeyboardInterrupt'' []), Suc n)
        else (Inr (PList []), Suc n))\<rparr>"

text \<open>A function that leaves the interpreter at every invocation (\<^verbatim>\<open>sys.exit\<close>).\<close>

definition exiting :: "nat pyfun" where
  "exiting =
     \<lparr>fn_name = Inr ''update_user_email'', fn_params = Inr [''conn'', ''user_id'', ''new_email''],
      fn_body = (\<lambda>args kwargs n. (Inl (Exn NonException ''SystemExit'' ''1''), Suc n))\<rparr>"






text \<open>Decimal text of an integer.\<close>

function show_nat :: "nat \<Rightarrow> string" where
  "show_nat n =
     (if n < 10 then [char_of (48 + n)]
      else show_nat (n div 10) @ [char_of (48 + n mod 10)])"
  by pat_completeness auto
termination
  by (relation "measure id") auto

declare show_nat.simps [simp del]

definition show_int :: "int \<Rightarrow> string" where
  "show_int i = (if i < 0 then CHR ''-'' # show_nat (nat (- i)) else show_nat (nat i))"

text \<open>
  A rendering of objects for the runs below: the text Python gives for \<^verbatim>\<open>None\<close>, for a
  number, for a string and for the tuple \<^verbatim>\<open>('SELECT 1',)\<close>, and a fixed text for any other
  object.
\<close>

definition render :: "pyval \<Rightarrow> string" where
  "render v =
     (case v of
        PNone \<Rightarrow> ''None''
      | PInt i \<Rightarrow> show_int i
      | PStr t \<Rightarrow> t
      | other \<Rightarrow>
          if v = PTuple [PStr ''SELECT 1'']
          then ''('' @ [CHR 0x27] @ ''SELECT 1'' @ [CHR 0x27] @ '',)''
          else ''<object>'')"

text \<open>
  A library in which nothing goes wrong but what the arguments decide:
  \<^verbatim>\<open>time.sleep\<close> raises \<^verbatim>\<open>ValueError\<close> for a negative length and \<^verbatim>\<open>OverflowError\<close>
  for one beyond the 64-bit count of nanoseconds.
\<close>

definition sleep_negative_error :: exn where
  "sleep_negative_error = Exn OtherException ''ValueError'' ''sleep length must be non-negative''"

definition sleep_overflow_error :: exn where
  "sleep_overflow_error =
     Exn OtherException ''OverflowError'' ''timestamp too large to convert to C _PyTime_t''"

definition plain_lib :: "'w lib" where
  "plain_lib =
     \<lparr>lib_commit = (\<lambda>conn w. (None, w)),
      lib_rollback = (\<lambda>conn w. (None, w)),
      lib_print = (\<lambda>text w. None),
      lib_log = (\<lambda>level text w. None),
      lib_sleep = (\<lambda>seconds w.
        if seconds < 0 then (Some sleep_negative_error, w)
        else if 9223372036 < seconds then (Some sleep_overflow_error, w)
        else (None, w)),
      lib_str = (\<lambda>v. Inr (render v)),
      lib_str_exn = (\<lambda>e. Inr (exn_str e))\<rparr>"

text \<open>
  What a wrapped function can leave behind: nothing, a deferred foreign-key violation in the
  open transaction, a closed connection, a closed standard output. The library over these
  states: a commit raises on a pending violation and on a closed connection, a rollback
  clears a pending violation and raises on a closed connection, \<^verbatim>\<open>print\<close> raises on a
  closed output.
\<close>

datatype session = Healthy | ForeignKeyPending | ConnectionClosed | OutputClosed

definition integrity_error :: exn where
  "integrity_error = Exn SqliteError ''IntegrityError'' ''FOREIGN KEY constraint failed''"

definition closed_error :: exn where
  "closed_error =
     Exn SqliteError ''ProgrammingError'' ''Cannot operate on a closed database.''"

definition closed_file_error :: exn where
  "closed_file_error = Exn OtherException ''ValueError'' ''I/O operation on closed file.''"

definition session_lib :: "session lib" where
  "session_lib =
     \<lparr>lib_commit = (\<lambda>conn w.
        case w of
          ForeignKeyPending \<Rightarrow> (Some integrity_error, ForeignKeyPending)
        | ConnectionClosed \<Rightarrow> (Some closed_error, ConnectionClosed)
        | other \<Rightarrow> (None, other)),
      lib_rollback = (\<lambda>conn w.
        case w of
          ForeignKeyPending \<Rightarrow> (None, Healthy)
        | ConnectionClosed \<Rightarrow> (Some closed_error, ConnectionClosed)
        | other \<Rightarrow> (None, other)),
      lib_print = (\<lambda>text w. if w = OutputClosed then Some closed_file_error else None),
      lib_log = (\<lambda>level text w. None),
      lib_sleep = (\<lambda>seconds w. (None, w)),
      lib_str = (\<lambda>v. Inr (render v)),
      lib_str_exn = (\<lambda>e. Inr (exn_str e))\<rparr>"

text \<open>
  A function that returns 42 and leaves a deferred foreign-key violation; one that closes
  the connection and fails; one that closes the standard output and fails.
\<close>

definition violating :: "session pyfun" where
  "violating =
     \<lparr>fn_name = Inr ''update_user_email'', fn_params = Inr [''conn'', ''user_id'', ''new_email''],
      fn_body = (\<lambda>args kwargs w. (Inr (PInt 42), ForeignKeyPending))\<rparr>"

definition closing :: "session pyfun" where
  "closing =
     \<lparr>fn_name = Inr ''update_user_email'', fn_params = Inr [''conn'', ''user_id'', ''new_email''],
      fn_body = (\<lambda>args kwargs w.
        (Inl (Exn OtherException ''RuntimeError'' ''giving up''), ConnectionClosed))\<rparr>"

definition muting :: "session pyfun" where
  "muting =
     \<lparr>fn_name = Inr ''update_user_email'', fn_params = Inr [''conn'', ''user_id'', ''new_email''],
      fn_body = (\<lambda>args kwargs w.
        (Inl (Exn OtherException ''RuntimeError'' ''giving up''), OutputClosed))\<rparr>"

definition initial :: "nat pystate" where
  "initial = \<lparr>trace = [], world = 0\<rparr>"

definition session_start :: "session pystate" where
  "session_start = \<lparr>trace = [], world = Healthy\<rparr>"

section \<open>Basic facts about the trace\<close>

lemma trace_emit [simp]: "trace (emit e s) = trace s @ [e]"
  by (simp add: emit_def)

lemma world_emit [simp]: "world (emit e s) = world s"
  by (simp add: emit_def)

lemma calls_Nil [simp]: "calls [] = 0"
  by (simp add: calls_def)

lemma calls_Cons [simp]: "calls (e # t) = (if is_Call e then Suc (calls t) else calls t)"
  by (simp add: calls_def)

lemma calls_append [simp]: "calls (xs @ ys) = calls xs + calls ys"
  by (simp add: calls_def)

section \<open>The connection provider: one open, one close\<close>

text \<open>
  Claim C2. For every wrapped function, argument list and starting state, one call of the
  \<open>with_db_connection\<close> wrapper adds to the trace exactly: one \<^verbatim>\<open>connect\<close> giving a
  handle, the invocation of the function with that handle prepended to the arguments, and one
  \<^verbatim>\<open>close\<close> of that same handle, which is the last thing done. The outcome \<open>r\<close> is the
  function's own, a value or an exception alike, so the close happens on both exit paths
  and before the wrapper returns or re-raises.
\<close>

theorem with_db_connection_open_close_once:
  "with_db_connection func args kwargs s =
     (let conn = length (filter is_Connect (trace s));
          (r, w') = fn_body func (PConn conn # args) kwargs (world s)
      in (r, \<lparr>trace = trace s @ [Connect ''users.db'' conn, Call (PConn conn # args) kwargs, Close conn],
               world = w'\<rparr>))"
  by (simp add: with_db_connection_def sqlite3_connect_def invoke_def emit_def Let_def
      split: prod.splits)

section \<open>Library calls that return normally\<close>

lemma quiet_str: "lib_quiet lib \<Longrightarrow> lib_str lib v = Inr (text_of (lib_str lib v))"
  by (cases "lib_str lib v") (auto simp: lib_quiet_def text_of_def)

lemma quiet_str_exn: "lib_quiet lib \<Longrightarrow> lib_str_exn lib e = Inr (text_of (lib_str_exn lib e))"
  by (cases "lib_str_exn lib e") (auto simp: lib_quiet_def text_of_def)

lemma py_print_quiet:
  "lib_quiet lib \<Longrightarrow> fstring pieces = Inr text \<Longrightarrow>
   py_print lib pieces s = (None, emit (Print text) s)"
  by (simp add: py_print_def lib_quiet_def)


lemma time_sleep_returns:
  "lib_sleep lib seconds (world s) = (None, w') \<Longrightarrow>
   time_sleep lib seconds s = (None, \<lparr>trace = trace s @ [Sleep seconds], world = w'\<rparr>)"
  by (simp add: time_sleep_def)

section \<open>The transaction wrapper: commit on return, rollback on an Exception\<close>

text \<open>
  Claim C1, as stated, fails, in four runs. A wrapped function that raises
  \<^verbatim>\<open>SystemExit\<close> (an exception that is not an \<^verbatim>\<open>Exception\<close>) is not caught by
  \<^verbatim>\<open>except Exception\<close>: the trace holds the invocation only, and no rollback. A function
  that returns 42 and leaves a deferred foreign-key violation makes the commit raise, inside
  the \<^verbatim>\<open>try\<close>: the wrapper rolls back and raises the commit's exception instead of
  returning 42. A function that closes the connection and fails makes the rollback raise:
  the wrapper raises the rollback's exception, not the original one. A function that closes
  the standard output and fails makes the \<^verbatim>\<open>print\<close> raise, with the same effect.
\<close>

theorem transactional_counterexample:
  "transactional plain_lib exiting 0 [] [] initial =
     (Inl (Exn NonException ''SystemExit'' ''1''), \<lparr>trace = [Call [PConn 0] []], world = 1\<rparr>) \<and>
   fn_body violating [PConn 0] [] Healthy = (Inr (PInt 42), ForeignKeyPending) \<and>
   transactional session_lib violating 0 [] [] session_start =
     (Inl integrity_error,
      \<lparr>trace = [Call [PConn 0] [], Rollback 0,
                Print ''Transaction failed: FOREIGN KEY constraint failed''],
       world = Healthy\<rparr>) \<and>
   fn_body closing [PConn 0] [] Healthy =
     (Inl (Exn OtherException ''RuntimeError'' ''giving up''), ConnectionClosed) \<and>
   transactional session_lib closing 0 [] [] session_start =
     (Inl closed_error, \<lparr>trace = [Call [PConn 0] []], world = ConnectionClosed\<rparr>) \<and>
   fn_body muting [PConn 0] [] Healthy =
     (Inl (Exn OtherException ''RuntimeError'' ''giving up''), OutputClosed) \<and>
   transactional session_lib muting 0 [] [] session_start =
     (Inl closed_file_error, \<lparr>trace = [Call [PConn 0] [], Rollback 0], world = OutputClosed\<rparr>)"
  by (simp add: transactional_def transactional_except_def invoke_def conn_commit_def
      conn_rollback_def py_print_def emit_def plain_lib_def session_lib_def exiting_def
      violating_def closing_def muting_def initial_def session_start_def integrity_error_def
      closed_error_def closed_file_error_def)

text \<open>
  Claim C1, amended. If the inner call returns normally and the commit on the connection
  returns normally, the wrapper returns the result unchanged, having invoked the function
  once and committed. If the inner call raises an exception of class \<^verbatim>\<open>Exception\<close>, the
  wrapper rolls back on the connection and, when the rollback and the \<^verbatim>\<open>print\<close> of the
  message return normally, re-raises the same exception. An exception outside
  \<^verbatim>\<open>Exception\<close> passes through unchanged with neither commit nor rollback. If the inner
  call returns normally and the commit raises an exception of class \<^verbatim>\<open>Exception\<close>, the
  wrapper rolls back and, rollback and \<^verbatim>\<open>print\<close> returning normally, raises the commit's
  exception.
\<close>

theorem transactional_commit_or_rollback:
  "(fn_body func (PConn conn # args) kwargs (world s) = (Inr result, w1) \<and>
    lib_commit lib conn w1 = (None, w2) \<longrightarrow>
      transactional lib func conn args kwargs s =
        (Inr result,
         \<lparr>trace = trace s @ [Call (PConn conn # args) kwargs, Commit conn], world = w2\<rparr>)) \<and>
   (fn_body func (PConn conn # args) kwargs (world s) = (Inl e, w1) \<and> is_Exception e \<and>
    lib_rollback lib conn w1 = (None, w2) \<and> lib_str_exn lib e = Inr m \<and>
    lib_print lib (''Transaction failed: '' @ m) w2 = None \<longrightarrow>
      transactional lib func conn args kwargs s =
        (Inl e,
         \<lparr>trace = trace s @ [Call (PConn conn # args) kwargs, Rollback conn,
                              Print (''Transaction failed: '' @ m)],
          world = w2\<rparr>)) \<and>
   (fn_body func (PConn conn # args) kwargs (world s) = (Inl e, w1) \<and> \<not> is_Exception e \<longrightarrow>
      transactional lib func conn args kwargs s =
        (Inl e, \<lparr>trace = trace s @ [Call (PConn conn # args) kwargs], world = w1\<rparr>)) \<and>
   (fn_body func (PConn conn # args) kwargs (world s) = (Inr result, w1) \<and>
    lib_commit lib conn w1 = (Some e, w2) \<and> is_Exception e \<and>
    lib_rollback lib conn w2 = (None, w3) \<and> lib_str_exn lib e = Inr m \<and>
    lib_print lib (''Transaction failed: '' @ m) w3 = None \<longrightarrow>
      transactional lib func conn args kwargs s =
        (Inl e,
         \<lparr>trace = trace s @ [Call (PConn conn # args) kwargs, Rollback conn,
                              Print (''Transaction failed: '' @ m)],
          world = w3\<rparr>))"
  by (simp add: transactional_def transactional_except_def invoke_def conn_commit_def
      conn_rollback_def py_print_def emit_def)

theorem transactional_commit_or_rollback_witness:
  "transactional plain_lib (flaky 0) 7 [PInt 1, PStr ''a@b.c''] [] initial =
     (Inr (PList [PTuple [PInt 1, PStr ''Alice Johnson'']]),
      \<lparr>trace = [Call [PConn 7, PInt 1, PStr ''a@b.c''] [], Commit 7], world = 1\<rparr>) \<and>
   transactional plain_lib always_failing 7 [PInt 1, PStr ''a@b.c''] [] initial =
     (Inl (Exn SqliteError ''OperationalError'' ''no such table: users''),
      \<lparr>trace = [Call [PConn 7, PInt 1, PStr ''a@b.c''] [], Rollback 7,
                Print ''Transaction failed: no such table: users''],
       world = 1\<rparr>) \<and>
   transactional plain_lib exiting 7 [] [] initial =
     (Inl (Exn NonException ''SystemExit'' ''1''), \<lparr>trace = [Call [PConn 7] []], world = 1\<rparr>) \<and>
   transactional session_lib violating 7 [] [] session_start =
     (Inl integrity_error,
      \<lparr>trace = [Call [PConn 7] [], Rollback 7,
                Print ''Transaction failed: FOREIGN KEY constraint failed''],
       world = Healthy\<rparr>)"
  using transactional_commit_or_rollback
          [where lib = plain_lib and func = "flaky 0" and conn = 7
             and args = "[PInt 1, PStr ''a@b.c'']" and kwargs = "[]" and s = initial
             and result = "PList [PTuple [PInt 1, PStr ''Alice Johnson'']]"
             and ?w1.0 = 1 and ?w2.0 = 1, THEN conjunct1]
        transactional_commit_or_rollback
          [where lib = plain_lib and func = always_failing and conn = 7
             and args = "[PInt 1, PStr ''a@b.c'']" and kwargs = "[]" and s = initial
             and e = "Exn SqliteError ''OperationalError'' ''no such table: users''"
             and m = "''no such table: users''"
             and ?w1.0 = 1 and ?w2.0 = 1, THEN conjunct2, THEN conjunct1]
        transactional_commit_or_rollback
          [where lib = plain_lib and func = exiting and conn = 7
             and args = "[]" and kwargs = "[]" and s = initial
             and e = "Exn NonException ''SystemExit'' ''1''"
             and ?w1.0 = 1, THEN conjunct2, THEN conjunct2, THEN conjunct1]
        transactional_commit_or_rollback
          [where lib = session_lib and func = violating and conn = 7
             and args = "[]" and kwargs = "[]" and s = session_start
             and result = "PInt 42" and e = integrity_error
             and m = "''FOREIGN KEY constraint failed''"
             and ?w1.0 = ForeignKeyPending and ?w2.0 = ForeignKeyPending and ?w3.0 = Healthy,
           THEN conjunct2, THEN conjunct2, THEN conjunct2]
  by (simp add: plain_lib_def session_lib_def flaky_def always_failing_def exiting_def
      violating_def initial_def session_start_def integrity_error_def)

section \<open>The retry wrapper\<close>

text \<open>
  Claim C9. With \<^verbatim>\<open>retries=0\<close> the range of attempts is empty: for every function, delay,
  arguments and library the wrapper returns \<^verbatim>\<open>None\<close> and leaves the state as it was, so
  the function was not invoked and nothing was printed, slept or raised.
\<close>

theorem retry_zero_returns_none:
  "retry_on_failure lib 0 delay func args kwargs s = (Inr PNone, s)"
  by (simp add: retry_on_failure_def retry_attempts.simps)

text \<open>
  The loop after \<open>k\<close> failed attempts: when the function raises an \<^verbatim>\<open>Exception\<close> on \<open>k\<close>
  successive invocations, attempts remain and the library calls in between return normally,
  the loop has invoked it \<open>k\<close> times and stands at attempt number \<open>attempt + k\<close>, in the
  state the last sleep left.
\<close>

lemma retry_attempts_after_failures:
  assumes quiet: "lib_quiet lib"
  shows "fails_times lib delay func args kwargs k (world s) w1 \<Longrightarrow>
         attempt + int k \<le> retries \<Longrightarrow>
         \<exists>s1. retry_attempts lib func retries delay args kwargs attempt s =
                 retry_attempts lib func retries delay args kwargs (attempt + int k) s1 \<and>
               world s1 = w1 \<and> calls (trace s1) = calls (trace s) + k"
proof (induction k arbitrary: attempt s)
  case 0
  then show ?case by (intro exI [of _ s]) simp
next
  case (Suc k)
  from Suc.prems(1) obtain e w0 w0' where
    body: "fn_body func args kwargs (world s) = (Inl e, w0)" and
    exc: "is_Exception e" and
    sl: "lib_sleep lib delay w0 = (None, w0')" and
    rest: "fails_times lib delay func args kwargs k w0' w1"
    by (auto split: prod.splits sum.splits option.splits)
  define line1 where "line1 =
    ''[Attempt '' @ text_of (lib_str lib (PInt attempt)) @ ''] Error: ''
    @ text_of (lib_str_exn lib e)"
  define line2 where "line2 =
    ''Retrying in '' @ text_of (lib_str lib (PInt delay)) @ '' seconds...''"
  define s3 where "s3 =
    emit (Print line2)
      (emit (Print line1) \<lparr>trace = trace s @ [Call args kwargs], world = w0\<rparr>)"
  define s' where "s' = \<lparr>trace = trace s3 @ [Sleep delay], world = w0'\<rparr>"
  have f1: "fstring [Inr ''[Attempt '', lib_str lib (PInt attempt), Inr ''] Error: '',
                     lib_str_exn lib e] = Inr line1"
    by (subst quiet_str [OF quiet], subst quiet_str_exn [OF quiet]) (simp add: line1_def)
  have f2: "fstring [Inr ''Retrying in '', lib_str lib (PInt delay), Inr '' seconds...'']
            = Inr line2"
    by (subst quiet_str [OF quiet]) (simp add: line2_def)
  have "lib_sleep lib delay (world s3) = (None, w0')"
    using sl by (simp add: s3_def)
  from time_sleep_returns [OF this] have slept: "time_sleep lib delay s3 = (None, s')"
    by (simp add: s'_def)
  have step: "retry_attempts lib func retries delay args kwargs attempt s =
              retry_attempts lib func retries delay args kwargs (attempt + 1) s'"
    using Suc.prems(2) body exc slept
    by (subst retry_attempts.simps)
       (simp add: invoke_def py_print_quiet [OF quiet f1] py_print_quiet [OF quiet f2] s3_def)
  have w: "world s' = w0'" and c: "calls (trace s') = Suc (calls (trace s))"
    by (simp_all add: s'_def s3_def)
  from Suc.IH [of s' "attempt + 1"] rest w Suc.prems(2)
  obtain s1 where
    "retry_attempts lib func retries delay args kwargs (attempt + 1) s' =
     retry_attempts lib func retries delay args kwargs (attempt + 1 + int k) s1"
    "world s1 = w1" "calls (trace s1) = calls (trace s') + k"
    by auto
  with step c show ?case
    by (auto simp: algebra_simps)
qed

lemma always_fails_times:
  assumes "\<forall>w. \<exists>e w'. fn_body func args kwargs w = (Inl e, w') \<and> is_Exception e"
    and "0 < k \<longrightarrow> sleeps lib delay"
  shows "\<exists>w'. fails_times lib delay func args kwargs k w w'"
  using assms(2)
proof (induction k arbitrary: w)
  case 0
  then show ?case by simp
next
  case (Suc k)
  from assms(1) obtain e w0 where
    body: "fn_body func args kwargs w = (Inl e, w0)" "is_Exception e"
    by blast
  from Suc.prems have sl: "sleeps lib delay"
    by simp
  then obtain w0' where slept: "lib_sleep lib delay w0 = (None, w0')"
    by (cases "lib_sleep lib delay w0") (auto simp: sleeps_def dest: spec [of _ w0])
  from sl have "0 < k \<longrightarrow> sleeps lib delay"
    by simp
  from Suc.IH [OF this] obtain w' where "fails_times lib delay func args kwargs k w0' w'"
    by blast
  with body slept show ?case by auto
qed

text \<open>
  Claim C3, as stated, fails. A function that raises \<^verbatim>\<open>SystemExit\<close> on every invocation
  is invoked once, not three times, by the wrapper configured with three attempts: the
  exception passes the handler \<^verbatim>\<open>except Exception\<close> at the first attempt. And a function
  that always fails with a database error is invoked once when the delay is
  \<^verbatim>\<open>10**20\<close> or \<open>-1\<close>: \<^verbatim>\<open>time.sleep\<close> raises \<^verbatim>\<open>OverflowError\<close> or
  \<^verbatim>\<open>ValueError\<close> inside the handler, and that exception leaves the wrapper.
\<close>

theorem retry_exhausts_counterexample:
  "fn_body exiting [] [] 0 = (Inl (Exn NonException ''SystemExit'' ''1''), 1) \<and>
   fn_body exiting [] [] 1 = (Inl (Exn NonException ''SystemExit'' ''1''), 2) \<and>
   fn_body exiting [] [] 2 = (Inl (Exn NonException ''SystemExit'' ''1''), 3) \<and>
   retry_on_failure plain_lib 3 1 exiting [] [] initial =
     (Inl (Exn NonException ''SystemExit'' ''1''), \<lparr>trace = [Call [] []], world = 1\<rparr>) \<and>
   calls (trace (snd (retry_on_failure plain_lib 3 1 exiting [] [] initial))) = 1 \<and>
   fst (retry_on_failure plain_lib 3 100000000000000000000 always_failing [] [] initial) =
     Inl sleep_overflow_error \<and>
   calls (trace (snd (retry_on_failure plain_lib 3 100000000000000000000 always_failing [] []
                        initial))) = 1 \<and>
   fst (retry_on_failure plain_lib 3 (- 1) always_failing [] [] initial) =
     Inl sleep_negative_error \<and>
   calls (trace (snd (retry_on_failure plain_lib 3 (- 1) always_failing [] [] initial))) = 1"
  by (simp add: retry_on_failure_def retry_attempts.simps invoke_def py_print_def time_sleep_def
      plain_lib_def exiting_def always_failing_def initial_def)

text \<open>
  Claim C3, amended. For every function that, on every invocation, raises an exception of
  class \<^verbatim>\<open>Exception\<close>, every attempt count \<open>retries \<ge> 1\<close> and every delay for which
  \<^verbatim>\<open>time.sleep\<close> returns normally (any delay when \<open>retries = 1\<close>), and provided the
  formatting and printing of the messages return normally, the wrapper invokes the function
  exactly \<open>retries\<close> times and then raises the exception \<open>e\<close> that the last of these
  invocations raised (the one made after \<open>retries - 1\<close> failures).
\<close>

theorem retry_exhausts:
  assumes "\<forall>w. \<exists>e w'. fn_body func args kwargs w = (Inl e, w') \<and> is_Exception e"
    and "1 \<le> retries"
    and "lib_quiet lib"
    and "1 < retries \<longrightarrow> sleeps lib delay"
  shows "\<exists>e w1 w2 s'.
           fails_times lib delay func args kwargs (nat retries - 1) (world s) w1 \<and>
           fn_body func args kwargs w1 = (Inl e, w2) \<and>
           retry_on_failure lib retries delay func args kwargs s = (Inl e, s') \<and>
           calls (trace s') = calls (trace s) + nat retries \<and> world s' = w2"
proof -
  from assms(2,4) have sl: "0 < nat retries - 1 \<longrightarrow> sleeps lib delay" by auto
  from always_fails_times [OF assms(1) sl] obtain w1 where
    f: "fails_times lib delay func args kwargs (nat retries - 1) (world s) w1"
    by blast
  from assms(1) obtain e w2 where
    body: "fn_body func args kwargs w1 = (Inl e, w2)" and exc: "is_Exception e"
    by blast
  from assms(2) have le: "1 + int (nat retries - 1) \<le> retries" by simp
  from retry_attempts_after_failures [OF assms(3) f le] obtain s1 where
    eq: "retry_attempts lib func retries delay args kwargs 1 s =
         retry_attempts lib func retries delay args kwargs (1 + int (nat retries - 1)) s1"
    and w: "world s1 = w1" and c: "calls (trace s1) = calls (trace s) + (nat retries - 1)"
    by blast
  from assms(2) have last: "1 + int (nat retries - 1) = retries" by simp
  define line1 where "line1 =
    ''[Attempt '' @ text_of (lib_str lib (PInt retries)) @ ''] Error: ''
    @ text_of (lib_str_exn lib e)"
  define s' where "s' =
    emit (Print ''All retry attempts failed.'')
      (emit (Print line1) \<lparr>trace = trace s1 @ [Call args kwargs], world = w2\<rparr>)"
  have f1: "fstring [Inr ''[Attempt '', lib_str lib (PInt retries), Inr ''] Error: '',
                     lib_str_exn lib e] = Inr line1"
    by (subst quiet_str [OF assms(3)], subst quiet_str_exn [OF assms(3)]) (simp add: line1_def)
  have f2: "fstring [Inr ''All retry attempts failed.''] = Inr ''All retry attempts failed.''"
    by simp
  have "retry_attempts lib func retries delay args kwargs retries s1 = (Inl e, s')"
    using body exc w
    by (subst retry_attempts.simps)
       (simp add: invoke_def py_print_quiet [OF assms(3) f1] py_print_quiet [OF assms(3) f2]
          s'_def)
  with eq last have "retry_on_failure lib retries delay func args kwargs s = (Inl e, s')"
    by (simp add: retry_on_failure_def)
  moreover have "calls (trace s') = calls (trace s) + nat retries" "world s' = w2"
    using c assms(2) by (simp_all add: s'_def)
  ultimately show ?thesis using f body by blast
qed

theorem retry_exhausts_witness:
  "fst (retry_on_failure plain_lib 3 1 always_failing [PConn 0] [] initial) =
     Inl (Exn SqliteError ''OperationalError'' ''no such table: users'') \<and>
   calls (trace (snd (retry_on_failure plain_lib 3 1 always_failing [PConn 0] [] initial))) = 3 \<and>
   world (snd (retry_on_failure plain_lib 3 1 always_failing [PConn 0] [] initial)) = 3"
  using retry_exhausts
          [where func = always_failing and args = "[PConn 0]" and kwargs = "[]"
             and retries = 3 and delay = 1 and s = initial and lib = plain_lib]
  by (auto simp: always_failing_def initial_def numeral_2_eq_2 lib_quiet_def sleeps_def
      plain_lib_def)

text \<open>
  Claim C7, as stated, fails. A function that raises \<^verbatim>\<open>KeyboardInterrupt\<close> on its first
  invocation and returns on its second is invoked once by the wrapper configured with three
  attempts, and the wrapper raises instead of returning the value. And a function that fails
  once with a database error and then returns is invoked once when the delay is
  \<^verbatim>\<open>10**20\<close> or \<open>-1\<close>: the wrapper leaves with the exception of \<^verbatim>\<open>time.sleep\<close>.
\<close>

theorem retry_recovers_counterexample:
  "fn_body interrupted_once [] [] 0 = (Inl (Exn NonException ''KeyboardInterrupt'' []), 1) \<and>
   fn_body interrupted_once [] [] 1 = (Inr (PList []), 2) \<and>
   retry_on_failure plain_lib 3 1 interrupted_once [] [] initial =
     (Inl (Exn NonException ''KeyboardInterrupt'' []), \<lparr>trace = [Call [] []], world = 1\<rparr>) \<and>
   fn_body (flaky 1) [] [] 0 = (Inl (Exn SqliteError ''OperationalError'' ''database is locked''), 1) \<and>
   fn_body (flaky 1) [] [] 1 = (Inr (PList [PTuple [PInt 1, PStr ''Alice Johnson'']]), 2) \<and>
   fst (retry_on_failure plain_lib 3 100000000000000000000 (flaky 1) [] [] initial) =
     Inl sleep_overflow_error \<and>
   calls (trace (snd (retry_on_failure plain_lib 3 100000000000000000000 (flaky 1) [] []
                        initial))) = 1 \<and>
   fst (retry_on_failure plain_lib 3 (- 1) (flaky 1) [] [] initial) = Inl sleep_negative_error \<and>
   calls (trace (snd (retry_on_failure plain_lib 3 (- 1) (flaky 1) [] [] initial))) = 1"
  by (simp add: retry_on_failure_def retry_attempts.simps invoke_def py_print_def time_sleep_def
      plain_lib_def interrupted_once_def flaky_def initial_def)

text \<open>
  Claim C7, amended. For every attempt count \<open>retries \<ge> 1\<close> and every function whose first
  \<open>k\<close> invocations (\<open>0 \<le> k < retries\<close>) each raise an exception of class
  \<^verbatim>\<open>Exception\<close>, the sleep after each returning normally, and whose next invocation
  returns \<open>v\<close>, and provided the formatting and printing of the messages return normally,
  the wrapper returns \<open>v\<close> and has invoked the function exactly \<open>k + 1\<close> times.
\<close>

theorem retry_recovers:
  assumes "fails_times lib delay func args kwargs k (world s) w1"
    and "fn_body func args kwargs w1 = (Inr v, w2)"
    and "int k < retries"
    and "lib_quiet lib"
  shows "\<exists>s'. retry_on_failure lib retries delay func args kwargs s = (Inr v, s') \<and>
              calls (trace s') = calls (trace s) + k + 1 \<and> world s' = w2"
proof -
  from assms(3) have "1 + int k \<le> retries" by simp
  from retry_attempts_after_failures [OF assms(4) assms(1) this] obtain s1 where
    eq: "retry_attempts lib func retries delay args kwargs 1 s =
         retry_attempts lib func retries delay args kwargs (1 + int k) s1"
    and w: "world s1 = w1" and c: "calls (trace s1) = calls (trace s) + k"
    by blast
  have "retry_attempts lib func retries delay args kwargs (1 + int k) s1 =
        (Inr v, \<lparr>trace = trace s1 @ [Call args kwargs], world = w2\<rparr>)"
    using assms(2,3) w by (subst retry_attempts.simps) (simp add: invoke_def)
  with eq c show ?thesis
    by (simp add: retry_on_failure_def)
qed

theorem retry_recovers_witness:
  "fst (retry_on_failure plain_lib 3 1 (flaky 2) [PConn 0] [] initial) =
     Inr (PList [PTuple [PInt 1, PStr ''Alice Johnson'']]) \<and>
   calls (trace (snd (retry_on_failure plain_lib 3 1 (flaky 2) [PConn 0] [] initial))) = 3 \<and>
   world (snd (retry_on_failure plain_lib 3 1 (flaky 2) [PConn 0] [] initial)) = 3"
  using retry_recovers
          [where func = "flaky 2" and args = "[PConn 0]" and kwargs = "[]" and k = 2
             and s = initial and ?w1.0 = 2
             and v = "PList [PTuple [PInt 1, PStr ''Alice Johnson'']]" and ?w2.0 = 3
             and retries = 3 and delay = 1 and lib = plain_lib]
  by (auto simp: flaky_def initial_def numeral_2_eq_2 lib_quiet_def sleeps_def plain_lib_def)

section \<open>The query cache\<close>










text \<open>
  Claim C6, as stated, fails. The rule of the claim locates the empty string passed as
  first positional argument, yet the wrapper raises \<^verbatim>\<open>ValueError\<close>: the test is
  \<^verbatim>\<open>if not query\<close>. And keyword lookup does not come first for a falsy keyword value:
  with \<^verbatim>\<open>query=''\<close> and a positional argument, the wrapper takes the positional one.
\<close>

theorem cache_query_empty_string_counterexample:
  "spec_cache_query_arg [PStr ''''] [] = Some (PStr '''') \<and>
   fst (cache_query (flaky 0) 0 [PStr ''''] [] Map.empty initial) = Inl missing_query_error \<and>
   spec_cache_query_arg [PStr ''SELECT 1''] [(''query'', PStr '''')] = Some (PStr '''') \<and>
   cache_find_query [PStr ''SELECT 1''] [(''query'', PStr '''')] = PStr ''SELECT 1''"
  by (simp add: spec_cache_query_arg_def cache_query_def cache_find_query_def)

lemma missing_query_error_not_unhashable: "missing_query_error \<noteq> unhashable_error"
  by (simp add: missing_query_error_def unhashable_error_def)

text \<open>
  Claim C6, amended. The query is the value of the keyword \<^verbatim>\<open>query\<close> when that value is
  truthy, and otherwise the first positional argument (\<^verbatim>\<open>None\<close> when there is none). The
  wrapper raises \<^verbatim>\<open>ValueError\<close> exactly when this value is falsy, and then the inner
  function is not invoked and cache and state are unchanged. When the value is truthy, a
  \<^verbatim>\<open>ValueError\<close> of that text can only be the inner function's own, raised in an
  invocation the trace records.
\<close>

theorem cache_query_missing_query:
  "cache_find_query args kwargs =
     (if truthy (case map_of kwargs ''query'' of Some v \<Rightarrow> v | None \<Rightarrow> PNone)
      then (case map_of kwargs ''query'' of Some v \<Rightarrow> v | None \<Rightarrow> PNone)
      else (case args of [] \<Rightarrow> PNone | a # rest \<Rightarrow> a)) \<and>
   (\<not> truthy (cache_find_query args kwargs) \<longrightarrow>
      cache_query func conn args kwargs c s = (Inl missing_query_error, c, s)) \<and>
   (truthy (cache_find_query args kwargs) \<longrightarrow>
      (case cache_query func conn args kwargs c s of
         (out, c', s') \<Rightarrow>
           out = Inl missing_query_error \<longrightarrow>
             fst (fn_body func (PConn conn # args) kwargs (world s)) = Inl missing_query_error \<and>
             calls (trace s') = Suc (calls (trace s))))"
  using missing_query_error_not_unhashable
  by (auto simp: cache_query_def cache_find_query_def Let_def invoke_def
      split: if_splits option.splits prod.splits sum.splits)

theorem cache_query_missing_query_witness:
  "cache_query (flaky 0) 0 [] [(''query'', PNone)] Map.empty initial =
     (Inl missing_query_error, Map.empty, initial) \<and>
   fst (cache_query (flaky 0) 0 [PStr ''SELECT 1''] [(''query'', PStr '''')] Map.empty initial) =
     Inr (PList [PTuple [PInt 1, PStr ''Alice Johnson'']])"
  using cache_query_missing_query [of "[]" "[(''query'', PNone)]" "flaky 0" 0 Map.empty initial]
        cache_query_missing_query
          [of "[PStr ''SELECT 1'']" "[(''query'', PStr '''')]" "flaky 0" 0 Map.empty initial]
  by (simp add: cache_query_def cache_find_query_def invoke_def flaky_def Let_def)

text \<open>
  The hypothesis on the cache in C4 holds of the empty cache the module starts with, and
  every call of the wrapper keeps it.
\<close>

lemma cache_keys_truthy_empty: "cache_keys_truthy Map.empty"
  by (simp add: cache_keys_truthy_def)

lemma cache_query_keeps_keys_truthy:
  "cache_keys_truthy c \<Longrightarrow> cache_query func conn args kwargs c s = (out, c', s') \<Longrightarrow>
   cache_keys_truthy c'"
  by (auto simp: cache_query_def cache_keys_truthy_def Let_def
      split: if_splits option.splits prod.splits sum.splits)

section \<open>The query logger\<close>













end
